theory Spec2Isabelle
  imports Complex_Main
begin

section \<open>Shared pieces of the trading scripts\<close>

text \<open>
  Every script under \<^verbatim>\<open>TRADING-BOTS/\<close> is one sequential polling loop over module-level
  globals. The embedding passes those globals explicitly: a record for the trading
  state, a list for each rolling history, and a log of the orders submitted.
  Prices are Python floats; they are modelled as reals (rounding is not modelled), and
  the IEEE special values are added where the source can produce them (RSI).
\<close>

datatype py_error = TypeError | KeyError | ValueError

subsection \<open>Python slicing\<close>

text \<open>
  \<^verbatim>\<open>xs[-k:]\<close>: the last \<open>k\<close> elements, the whole list when it is shorter, and also the
  whole list when \<open>k = 0\<close> (Python reads \<^verbatim>\<open>xs[-0:]\<close> as \<^verbatim>\<open>xs[0:]\<close>).
\<close>

definition py_last :: "nat \<Rightarrow> 'a list \<Rightarrow> 'a list" where
  "py_last k xs = (if k = 0 then xs else drop (length xs - k) xs)"

subsection \<open>Rolling histories\<close>

text \<open>
  \<^verbatim>\<open>DualMovingAverage.main\<close>, lines 115-118 (the same three lines are in
  \<^verbatim>\<open>Reinforcement_bot\<close>, \<^verbatim>\<open>moving_average\<close>, \<^verbatim>\<open>bollinger_bands\<close>, \<^verbatim>\<open>rsi_strategy\<close>,
  \<^verbatim>\<open>momentum_bot\<close>, each with its own window constant):
  \<^verbatim>\<open>
    price_history.append(current_price)
    if len(price_history) > SLOW_WINDOW:
        price_history = price_history[-SLOW_WINDOW:]
  \<close>
\<close>

definition push_slice :: "nat \<Rightarrow> 'a list \<Rightarrow> 'a \<Rightarrow> 'a list" where
  "push_slice N h v = (let h' = h @ [v] in if length h' > N then py_last N h' else h')"

text \<open>
  \<^verbatim>\<open>relative_arbitrage.main\<close>, lines 136-138 (and \<^verbatim>\<open>spread_bot.main\<close>, lines 172-174):
  \<^verbatim>\<open>
    ratio_history.append(current_ratio)
    if len(ratio_history) > ROLLING_WINDOW:
        ratio_history.pop(0)
  \<close>
  \<^verbatim>\<open>pop(0)\<close> runs on a list that has just been appended to, so it never raises.
\<close>

definition push_pop :: "nat \<Rightarrow> 'a list \<Rightarrow> 'a \<Rightarrow> 'a list" where
  "push_pop N h v = (let h' = h @ [v] in if length h' > N then tl h' else h')"

subsection \<open>Submitting orders\<close>

text \<open>
  \<^verbatim>\<open>send_trade_order\<close> (every script): POST the order; return \<^verbatim>\<open>True\<close> when the request
  succeeds and \<^verbatim>\<open>False\<close> on any exception, printing one line per order either way. The
  execution endpoint is outside the program: \<open>ex k\<close> is its answer to the \<open>k\<close>-th order
  submitted (counted from 0), and the list of orders submitted so far, each with its
  outcome, stands for the lines printed.
\<close>

record trade =
  t_symbol :: string
  t_side :: string
  t_amount :: real
  t_price :: real
  t_ok :: bool

type_synonym exchange = "nat \<Rightarrow> bool"

definition send_trade_order ::
  "exchange \<Rightarrow> string \<Rightarrow> string \<Rightarrow> real \<Rightarrow> real \<Rightarrow> trade list \<Rightarrow> bool \<times> trade list" where
  "send_trade_order ex symbol side amount price sent =
     (let ok = ex (length sent)
      in (ok, sent @ [\<lparr>t_symbol = symbol, t_side = side, t_amount = amount,
                       t_price = price, t_ok = ok\<rparr>]))"

subsection \<open>Single-instrument trading state\<close>

text \<open>
  The globals \<^verbatim>\<open>position\<close> (0, 1 or -1), \<^verbatim>\<open>entry_price\<close> (a float or \<^verbatim>\<open>None\<close>) and
  \<^verbatim>\<open>profit\<close> (named \<^verbatim>\<open>cum_profit\<close> in \<^verbatim>\<open>DualMovingAverage\<close>). Subtracting with
  \<^verbatim>\<open>entry_price = None\<close> raises \<^verbatim>\<open>TypeError\<close> in Python; the model returns it.
\<close>

record trader =
  position :: int
  entry_price :: "real option"
  profit :: real

definition mean :: "real list \<Rightarrow> real" where
  "mean xs = sum_list xs / real (length xs)"

section \<open>DualMovingAverage.py\<close>

text \<open>
  The trading logic of \<^verbatim>\<open>main\<close>, lines 138-175, with \<^verbatim>\<open>SYMBOL = "BTC"\<close> and
  \<^verbatim>\<open>TRADE_AMOUNT = 0.01\<close>. The first branch is \<^verbatim>\<open>if fast_ma > slow_ma\<close>, the second a
  plain \<^verbatim>\<open>else\<close>.
\<close>

definition dual_ma_trade ::
  "exchange \<Rightarrow> real \<Rightarrow> real \<Rightarrow> real \<Rightarrow> trader \<times> trade list \<Rightarrow> py_error + trader \<times> trade list" where
  "dual_ma_trade ex fast_ma slow_ma current_price = (\<lambda>(s, sent).
     if fast_ma > slow_ma then
       if position s = 0 then
         (let (ok, sent1) = send_trade_order ex ''BTC'' ''buy'' 0.01 current_price sent
          in if ok then Inr (s\<lparr>position := 1, entry_price := Some current_price\<rparr>, sent1)
             else Inr (s, sent1))
       else if position s = - 1 then
         (let (ok, sent1) = send_trade_order ex ''BTC'' ''buy'' 0.01 current_price sent
          in if ok then
               (case entry_price s of
                  None \<Rightarrow> Inl TypeError
                | Some e \<Rightarrow>
                    (let s1 = s\<lparr>profit := profit s + (e - current_price)\<rparr>;
                         (ok2, sent2) = send_trade_order ex ''BTC'' ''buy'' 0.01 current_price sent1
                     in if ok2 then Inr (s1\<lparr>position := 1, entry_price := Some current_price\<rparr>, sent2)
                        else Inr (s1, sent2)))
             else Inr (s, sent1))
       else Inr (s, sent)
     else
       if position s = 0 then
         (let (ok, sent1) = send_trade_order ex ''BTC'' ''sell'' 0.01 current_price sent
          in if ok then Inr (s\<lparr>position := - 1, entry_price := Some current_price\<rparr>, sent1)
             else Inr (s, sent1))
       else if position s = 1 then
         (let (ok, sent1) = send_trade_order ex ''BTC'' ''sell'' 0.01 current_price sent
          in if ok then
               (case entry_price s of
                  None \<Rightarrow> Inl TypeError
                | Some e \<Rightarrow>
                    (let s1 = s\<lparr>profit := profit s + (current_price - e)\<rparr>;
                         (ok2, sent2) = send_trade_order ex ''BTC'' ''sell'' 0.01 current_price sent1
                     in if ok2 then Inr (s1\<lparr>position := - 1, entry_price := Some current_price\<rparr>, sent2)
                        else Inr (s1, sent2)))
             else Inr (s, sent1))
       else Inr (s, sent))"

text \<open>
  One pass of the loop of \<^verbatim>\<open>main\<close>, lines 108-175. \<open>fetched\<close> is what
  \<^verbatim>\<open>fetch_market_price\<close> returned (\<^verbatim>\<open>None\<close> skips the pass); \<^verbatim>\<open>SLOW_WINDOW = 50\<close>,
  \<^verbatim>\<open>FAST_WINDOW = 10\<close>, both averages are \<^verbatim>\<open>np.mean\<close>.
\<close>

definition dual_ma_tick ::
  "exchange \<Rightarrow> real option \<Rightarrow> real list \<times> trader \<times> trade list
     \<Rightarrow> py_error + real list \<times> trader \<times> trade list" where
  "dual_ma_tick ex fetched = (\<lambda>(price_history, s, sent).
     case fetched of
       None \<Rightarrow> Inr (price_history, s, sent)
     | Some current_price \<Rightarrow>
         (let h = push_slice 50 price_history current_price
          in if length h < 50 then Inr (h, s, sent)
             else (let fast_ma = mean (py_last 10 h); slow_ma = mean h
                   in case dual_ma_trade ex fast_ma slow_ma current_price (s, sent) of
                        Inl e \<Rightarrow> Inl e
                      | Inr (s', sent') \<Rightarrow> Inr (h, s', sent'))))"

section \<open>moving_average.py\<close>

text \<open>
  \<^verbatim>\<open>evaluate_moving_average\<close>, lines 119-169. A candle is a dict whose open, high, low
  and close are all the fetched price, so the candle list is the list of prices;
  \<^verbatim>\<open>WINDOW = 50\<close>. The script assigns \<^verbatim>\<open>position\<close> and \<^verbatim>\<open>entry_price\<close> first and then
  calls \<^verbatim>\<open>send_trade_order\<close> as a statement, dropping what it returns.
\<close>

definition evaluate_moving_average ::
  "exchange \<Rightarrow> real list \<times> trader \<times> trade list \<Rightarrow> py_error + trader \<times> trade list" where
  "evaluate_moving_average ex = (\<lambda>(candles, s, sent).
     if length candles < 50 then Inr (s, sent)
     else
       (let moving_average = sum_list (py_last 50 candles) / 50;
            current_price = last candles;
            desired_position = (if current_price > moving_average then 1 else - 1);
            enter = (\<lambda>s0 sent0.
               (s0\<lparr>position := desired_position, entry_price := Some current_price\<rparr>,
                snd (send_trade_order ex ''BTC''
                       (if desired_position = 1 then ''buy'' else ''sell'') 0.01 current_price sent0)))
        in if position s = 0 then Inr (enter s sent)
           else if position s \<noteq> desired_position then
             (case entry_price s of
                None \<Rightarrow> Inl TypeError
              | Some e \<Rightarrow>
                  (if position s = 1 then
                     Inr (enter (s\<lparr>profit := profit s + (current_price - e)\<rparr>)
                            (snd (send_trade_order ex ''BTC'' ''sell'' 0.01 current_price sent)))
                   else
                     Inr (enter (s\<lparr>profit := profit s + (e - current_price)\<rparr>)
                            (snd (send_trade_order ex ''BTC'' ''buy'' 0.01 current_price sent)))))
           else Inr (s, sent)))"

section \<open>Reinforcement_bot.py\<close>

text \<open>
  The globals \<^verbatim>\<open>position\<close>, \<^verbatim>\<open>entry_price\<close> and \<^verbatim>\<open>cash\<close> (10000.0 at start), and
  \<^verbatim>\<open>execute_action\<close>, lines 165-213, with \<^verbatim>\<open>SYMBOL = "ETH"\<close> and \<^verbatim>\<open>TRADE_AMOUNT = 0.1\<close>.
\<close>

record rl_trader =
  rl_position :: int
  rl_entry_price :: "real option"
  cash :: real

definition execute_action ::
  "exchange \<Rightarrow> int \<Rightarrow> real \<Rightarrow> rl_trader \<times> trade list \<Rightarrow> py_error + rl_trader \<times> trade list" where
  "execute_action ex action current_price = (\<lambda>(s, sent).
     if action = 1 then
       if rl_position s = 0 then
         (let (ok, sent1) = send_trade_order ex ''ETH'' ''buy'' 0.1 current_price sent
          in if ok then Inr (s\<lparr>rl_position := 1, rl_entry_price := Some current_price\<rparr>, sent1)
             else Inr (s, sent1))
       else if rl_position s = - 1 then
         (let (ok, sent1) = send_trade_order ex ''ETH'' ''buy'' 0.1 current_price sent
          in if ok then
               (case rl_entry_price s of
                  None \<Rightarrow> Inl TypeError
                | Some e \<Rightarrow>
                    (let s1 = s\<lparr>cash := cash s + (e - current_price)\<rparr>;
                         (ok2, sent2) = send_trade_order ex ''ETH'' ''buy'' 0.1 current_price sent1
                     in if ok2 then Inr (s1\<lparr>rl_position := 1, rl_entry_price := Some current_price\<rparr>, sent2)
                        else Inr (s1, sent2)))
             else Inr (s, sent1))
       else Inr (s, sent)
     else if action = 2 then
       if rl_position s = 0 then
         (let (ok, sent1) = send_trade_order ex ''ETH'' ''sell'' 0.1 current_price sent
          in if ok then Inr (s\<lparr>rl_position := - 1, rl_entry_price := Some current_price\<rparr>, sent1)
             else Inr (s, sent1))
       else if rl_position s = 1 then
         (let (ok, sent1) = send_trade_order ex ''ETH'' ''sell'' 0.1 current_price sent
          in if ok then
               (case rl_entry_price s of
                  None \<Rightarrow> Inl TypeError
                | Some e \<Rightarrow>
                    (let s1 = s\<lparr>cash := cash s + (current_price - e)\<rparr>;
                         (ok2, sent2) = send_trade_order ex ''ETH'' ''sell'' 0.1 current_price sent1
                     in if ok2 then Inr (s1\<lparr>rl_position := - 1, rl_entry_price := Some current_price\<rparr>, sent2)
                        else Inr (s1, sent2)))
             else Inr (s, sent1))
       else Inr (s, sent)
     else Inr (s, sent))"

text \<open>
  The Q-table: a dict from the state tuple \<^verbatim>\<open>(position, trend)\<close> to a dict
  \<^verbatim>\<open>{0: q0, 1: q1, 2: q2}\<close>, kept here as the list of its items in insertion order.
  \<^verbatim>\<open>initialize_state_if_needed\<close>, lines 140-142, and \<^verbatim>\<open>update_Q\<close>, lines 156-163. The
  module constants are \<^verbatim>\<open>alpha = 0.1\<close> and \<^verbatim>\<open>gamma = 0.99\<close>; they are parameters here.
  \<open>q_rule\<close> is the right-hand side of line 163.
\<close>

type_synonym q_row = "(int \<times> real) list"
type_synonym q_table = "int \<times> string \<Rightarrow> q_row option"

definition initialize_state_if_needed :: "int \<times> string \<Rightarrow> q_table \<Rightarrow> q_table" where
  "initialize_state_if_needed state Q =
     (case Q state of
        None \<Rightarrow> Q(state \<mapsto> [(0, 0), (1, 0), (2, 0)])
      | Some row \<Rightarrow> Q)"

fun py_max :: "real list \<Rightarrow> py_error + real" where
  "py_max [] = Inl ValueError"
| "py_max (x # xs) = Inr (foldl max x xs)"

definition q_rule :: "real \<Rightarrow> real \<Rightarrow> real \<Rightarrow> real \<Rightarrow> real \<Rightarrow> real" where
  "q_rule alpha gamma q reward max_next = q + alpha * (reward + gamma * max_next - q)"

definition update_Q ::
  "real \<Rightarrow> real \<Rightarrow> int \<times> string \<Rightarrow> int \<Rightarrow> real \<Rightarrow> int \<times> string \<Rightarrow> q_table
     \<Rightarrow> py_error + q_table" where
  "update_Q alpha gamma state action reward next_state Q =
     (let Q1 = initialize_state_if_needed state Q;
          Q2 = initialize_state_if_needed next_state Q1
      in case Q2 next_state of
           None \<Rightarrow> Inl KeyError
         | Some next_row \<Rightarrow>
             (case py_max (map snd next_row) of
                Inl e \<Rightarrow> Inl e
              | Inr max_next \<Rightarrow>
                  (case Q2 state of
                     None \<Rightarrow> Inl KeyError
                   | Some row \<Rightarrow>
                       (case map_of row action of
                          None \<Rightarrow> Inl KeyError
                        | Some q \<Rightarrow>
                            Inr (Q2(state \<mapsto>
                                   map (\<lambda>(a, v). if a = action
                                                  then (a, q_rule alpha gamma q reward max_next)
                                                  else (a, v)) row))))))"

text \<open>
  The update applied again and again to one stored value, with the same reward each
  time and with the stored value itself as \<^verbatim>\<open>max_next\<close> (the state is its own successor
  and the updated action holds the largest value of its row).
\<close>

fun q_repeat :: "real \<Rightarrow> real \<Rightarrow> real \<Rightarrow> nat \<Rightarrow> real \<Rightarrow> real" where
  "q_repeat alpha gamma reward 0 q = q"
| "q_repeat alpha gamma reward (Suc n) q =
     q_repeat alpha gamma reward n (q_rule alpha gamma q reward q)"

section \<open>momentum_bot.py\<close>

text \<open>
  The trading logic of \<^verbatim>\<open>evaluate_trading_signal\<close>, lines 139-164, with
  \<^verbatim>\<open>THRESHOLD = 50\<close>, \<^verbatim>\<open>SYMBOL = "BTC"\<close>, \<^verbatim>\<open>TRADE_AMOUNT = 0.01\<close>; then the whole function,
  lines 127-164, on the list of prices of \<^verbatim>\<open>price_history\<close> (its timestamps are not read),
  with \<^verbatim>\<open>MOMENTUM_PERIOD = 10\<close>.
\<close>

definition momentum_trade ::
  "exchange \<Rightarrow> real \<Rightarrow> real \<Rightarrow> trader \<times> trade list \<Rightarrow> py_error + trader \<times> trade list" where
  "momentum_trade ex momentum current_price = (\<lambda>(s, sent).
     if position s = 0 then
       if momentum > 50 then
         (let (ok, sent1) = send_trade_order ex ''BTC'' ''buy'' 0.01 current_price sent
          in if ok then Inr (s\<lparr>position := 1, entry_price := Some current_price\<rparr>, sent1)
             else Inr (s, sent1))
       else if momentum < - 50 then
         (let (ok, sent1) = send_trade_order ex ''BTC'' ''sell'' 0.01 current_price sent
          in if ok then Inr (s\<lparr>position := - 1, entry_price := Some current_price\<rparr>, sent1)
             else Inr (s, sent1))
       else Inr (s, sent)
     else
       if position s = 1 \<and> momentum < 0 then
         (let (ok, sent1) = send_trade_order ex ''BTC'' ''sell'' 0.01 current_price sent
          in if ok then
               (case entry_price s of
                  None \<Rightarrow> Inl TypeError
                | Some e \<Rightarrow>
                    Inr (s\<lparr>profit := profit s + (current_price - e),
                           position := 0, entry_price := None\<rparr>, sent1))
             else Inr (s, sent1))
       else if position s = - 1 \<and> momentum > 0 then
         (let (ok, sent1) = send_trade_order ex ''BTC'' ''buy'' 0.01 current_price sent
          in if ok then
               (case entry_price s of
                  None \<Rightarrow> Inl TypeError
                | Some e \<Rightarrow>
                    Inr (s\<lparr>profit := profit s + (e - current_price),
                           position := 0, entry_price := None\<rparr>, sent1))
             else Inr (s, sent1))
       else Inr (s, sent))"

definition evaluate_trading_signal ::
  "exchange \<Rightarrow> real list \<times> trader \<times> trade list \<Rightarrow> py_error + trader \<times> trade list" where
  "evaluate_trading_signal ex = (\<lambda>(price_history, s, sent).
     if length price_history < 10 then Inr (s, sent)
     else
       (let current_price = last price_history;
            past_price = price_history ! (length price_history - 10);
            momentum = current_price - past_price
        in momentum_trade ex momentum current_price (s, sent)))"

section \<open>bollinger_bands.py\<close>

text \<open>
  \<^verbatim>\<open>statistics.stdev\<close> is the sample standard deviation; it raises on fewer than two
  values, and the script calls it on exactly \<^verbatim>\<open>WINDOW = 20\<close>.
  The trading logic of \<^verbatim>\<open>evaluate_bollinger_bands\<close>, lines 147-174, then the whole
  function, lines 130-174. As in \<^verbatim>\<open>moving_average\<close>, the state is assigned whatever
  \<^verbatim>\<open>send_trade_order\<close> returns, and on exit the profit is added before the order is sent.
\<close>

definition stdev :: "real list \<Rightarrow> real" where
  "stdev xs = sqrt (sum_list (map (\<lambda>x. (x - mean xs)\<^sup>2) xs) / (real (length xs) - 1))"

definition bollinger_trade ::
  "exchange \<Rightarrow> real \<Rightarrow> real \<Rightarrow> real \<Rightarrow> real \<Rightarrow> trader \<times> trade list
     \<Rightarrow> py_error + trader \<times> trade list" where
  "bollinger_trade ex ma upper_band lower_band current_price = (\<lambda>(s, sent).
     if position s = 0 then
       if current_price > upper_band then
         Inr (s\<lparr>position := 1, entry_price := Some current_price\<rparr>,
              snd (send_trade_order ex ''BTC'' ''buy'' 0.01 current_price sent))
       else if current_price < lower_band then
         Inr (s\<lparr>position := - 1, entry_price := Some current_price\<rparr>,
              snd (send_trade_order ex ''BTC'' ''sell'' 0.01 current_price sent))
       else Inr (s, sent)
     else
       if position s = 1 \<and> current_price < ma then
         (case entry_price s of
            None \<Rightarrow> Inl TypeError
          | Some e \<Rightarrow>
              Inr (s\<lparr>profit := profit s + (current_price - e), position := 0, entry_price := None\<rparr>,
                   snd (send_trade_order ex ''BTC'' ''sell'' 0.01 current_price sent)))
       else if position s = - 1 \<and> current_price > ma then
         (case entry_price s of
            None \<Rightarrow> Inl TypeError
          | Some e \<Rightarrow>
              Inr (s\<lparr>profit := profit s + (e - current_price), position := 0, entry_price := None\<rparr>,
                   snd (send_trade_order ex ''BTC'' ''buy'' 0.01 current_price sent)))
       else Inr (s, sent))"

definition evaluate_bollinger_bands ::
  "exchange \<Rightarrow> real list \<times> trader \<times> trade list \<Rightarrow> py_error + trader \<times> trade list" where
  "evaluate_bollinger_bands ex = (\<lambda>(candles, s, sent).
     if length candles < 20 then Inr (s, sent)
     else
       (let close_prices = py_last 20 candles;
            ma = sum_list close_prices / 20;
            std_dev = stdev close_prices;
            upper_band = ma + 2 * std_dev;
            lower_band = ma - 2 * std_dev;
            current_price = last candles
        in bollinger_trade ex ma upper_band lower_band current_price (s, sent)))"

section \<open>rsi_strategy.py\<close>

subsection \<open>Float values of a pandas Series\<close>

text \<open>
  \<^verbatim>\<open>compute_RSI\<close> works on a pandas Series of float64. pandas does element-wise IEEE 754
  arithmetic and raises no exception on a zero divisor: a nonzero value divided by
  zero is an infinity, zero divided by zero is NaN, a finite value divided by an
  infinity is zero, and NaN propagates. A value is therefore a finite number (a real:
  rounding and the sign of zero are not modelled), one of the two infinities, or NaN.
  Comparisons with NaN are false.
\<close>

datatype pyfloat = Fin real | PInf | NInf | NaN

fun fl_neg :: "pyfloat \<Rightarrow> pyfloat" where
  "fl_neg (Fin a) = Fin (- a)"
| "fl_neg PInf = NInf"
| "fl_neg NInf = PInf"
| "fl_neg NaN = NaN"

fun fl_add :: "pyfloat \<Rightarrow> pyfloat \<Rightarrow> pyfloat" where
  "fl_add NaN y = NaN"
| "fl_add x NaN = NaN"
| "fl_add (Fin a) (Fin b) = Fin (a + b)"
| "fl_add PInf NInf = NaN"
| "fl_add NInf PInf = NaN"
| "fl_add PInf y = PInf"
| "fl_add x PInf = PInf"
| "fl_add NInf y = NInf"
| "fl_add x NInf = NInf"

definition fl_sub :: "pyfloat \<Rightarrow> pyfloat \<Rightarrow> pyfloat" where
  "fl_sub x y = fl_add x (fl_neg y)"

fun fl_div :: "pyfloat \<Rightarrow> pyfloat \<Rightarrow> pyfloat" where
  "fl_div NaN y = NaN"
| "fl_div x NaN = NaN"
| "fl_div (Fin a) (Fin b) =
     (if b = 0 then (if a = 0 then NaN else if a > 0 then PInf else NInf) else Fin (a / b))"
| "fl_div (Fin a) PInf = Fin 0"
| "fl_div (Fin a) NInf = Fin 0"
| "fl_div PInf (Fin b) = (if b < 0 then NInf else PInf)"
| "fl_div NInf (Fin b) = (if b < 0 then PInf else NInf)"
| "fl_div PInf y = NaN"
| "fl_div NInf y = NaN"

fun fl_lt :: "pyfloat \<Rightarrow> pyfloat \<Rightarrow> bool" where
  "fl_lt (Fin a) (Fin b) = (a < b)"
| "fl_lt (Fin a) PInf = True"
| "fl_lt NInf (Fin b) = True"
| "fl_lt NInf PInf = True"
| "fl_lt x y = False"

definition fl_gt :: "pyfloat \<Rightarrow> pyfloat \<Rightarrow> bool" where
  "fl_gt x y = fl_lt y x"

text \<open>\<^verbatim>\<open>clip(lower=0)\<close> and \<^verbatim>\<open>clip(upper=0)\<close>; NaN stays NaN.\<close>

fun clip_lower0 :: "pyfloat \<Rightarrow> pyfloat" where
  "clip_lower0 (Fin a) = (if a < 0 then Fin 0 else Fin a)"
| "clip_lower0 PInf = PInf"
| "clip_lower0 NInf = Fin 0"
| "clip_lower0 NaN = NaN"

fun clip_upper0 :: "pyfloat \<Rightarrow> pyfloat" where
  "clip_upper0 (Fin a) = (if a > 0 then Fin 0 else Fin a)"
| "clip_upper0 PInf = Fin 0"
| "clip_upper0 NInf = NInf"
| "clip_upper0 NaN = NaN"

text \<open>
  \<^verbatim>\<open>series.diff()\<close>: NaN first, then each value minus the one before it. The closes are
  the prices fetched, finite numbers.
\<close>

fun diff_from :: "real \<Rightarrow> real list \<Rightarrow> pyfloat list" where
  "diff_from p [] = []"
| "diff_from p (x # xs) = Fin (x - p) # diff_from x xs"

fun diff :: "real list \<Rightarrow> pyfloat list" where
  "diff [] = []"
| "diff (x # xs) = NaN # diff_from x xs"

text \<open>
  \<^verbatim>\<open>rolling(window=period, min_periods=period).mean()\<close>: at index \<open>i\<close> the window is the
  last \<open>period\<close> values up to \<open>i\<close> (fewer at the start); the result is NaN when the
  window has fewer than \<open>min_periods\<close> values that are not NaN, and the mean of those
  values otherwise.
\<close>

definition window_mean :: "nat \<Rightarrow> pyfloat list \<Rightarrow> pyfloat" where
  "window_mean min_periods w =
     (let obs = filter (\<lambda>x. x \<noteq> NaN) w
      in if length obs < min_periods then NaN
         else fl_div (foldl fl_add (Fin 0) obs) (Fin (real (length obs))))"

definition rolling_window_mean :: "nat \<Rightarrow> pyfloat list \<Rightarrow> pyfloat list" where
  "rolling_window_mean period xs =
     map (\<lambda>i. window_mean period (drop (Suc i - period) (take (Suc i) xs))) [0..<length xs]"

text \<open>\<^verbatim>\<open>compute_RSI\<close>, lines 61-73.\<close>

definition compute_RSI :: "real list \<Rightarrow> nat \<Rightarrow> pyfloat list" where
  "compute_RSI series period =
     (let delta = diff series;
          gain = map clip_lower0 delta;
          loss = map (\<lambda>d. fl_neg (clip_upper0 d)) delta;
          avg_gain = rolling_window_mean period gain;
          avg_loss = rolling_window_mean period loss;
          rs = map2 fl_div avg_gain avg_loss;
          rsi = map (\<lambda>r. fl_sub (Fin 100) (fl_div (Fin 100) (fl_add (Fin 1) r))) rs
      in rsi)"

text \<open>
  \<^verbatim>\<open>evaluate_RSI\<close>, lines 139-178, on the closes of the candles, with
  \<^verbatim>\<open>RSI_PERIOD = 14\<close>. The state is assigned before the order is sent and the order's
  result is dropped.
\<close>

definition rsi_trade ::
  "exchange \<Rightarrow> pyfloat \<Rightarrow> real \<Rightarrow> trader \<times> trade list \<Rightarrow> py_error + trader \<times> trade list" where
  "rsi_trade ex current_rsi current_price = (\<lambda>(s, sent).
     if position s = 0 then
       if fl_lt current_rsi (Fin 30) then
         Inr (s\<lparr>position := 1, entry_price := Some current_price\<rparr>,
              snd (send_trade_order ex ''BTC'' ''buy'' 0.01 current_price sent))
       else if fl_gt current_rsi (Fin 70) then
         Inr (s\<lparr>position := - 1, entry_price := Some current_price\<rparr>,
              snd (send_trade_order ex ''BTC'' ''sell'' 0.01 current_price sent))
       else Inr (s, sent)
     else
       if position s = 1 \<and> fl_gt current_rsi (Fin 50) then
         (case entry_price s of
            None \<Rightarrow> Inl TypeError
          | Some e \<Rightarrow>
              Inr (s\<lparr>profit := profit s + (current_price - e), position := 0, entry_price := None\<rparr>,
                   snd (send_trade_order ex ''BTC'' ''sell'' 0.01 current_price sent)))
       else if position s = - 1 \<and> fl_lt current_rsi (Fin 50) then
         (case entry_price s of
            None \<Rightarrow> Inl TypeError
          | Some e \<Rightarrow>
              Inr (s\<lparr>profit := profit s + (e - current_price), position := 0, entry_price := None\<rparr>,
                   snd (send_trade_order ex ''BTC'' ''buy'' 0.01 current_price sent)))
       else Inr (s, sent))"

definition evaluate_RSI ::
  "exchange \<Rightarrow> real list \<times> trader \<times> trade list \<Rightarrow> py_error + trader \<times> trade list" where
  "evaluate_RSI ex = (\<lambda>(candles, s, sent).
     if length candles < 14 + 1 then Inr (s, sent)
     else
       (let rsi_series = compute_RSI candles 14;
            current_rsi = last rsi_series;
            current_price = last candles
        in rsi_trade ex current_rsi current_price (s, sent)))"

section \<open>spread_bot.py and relative_arbitrage.py\<close>

text \<open>
  The globals of \<^verbatim>\<open>spread_bot\<close>: \<^verbatim>\<open>position\<close> (0, 1 long spread, -1 short spread), the
  entry prices of the two instruments, the entry spread and \<^verbatim>\<open>cum_profit\<close>. The trading
  logic of \<^verbatim>\<open>main\<close>, lines 191-240, with \<^verbatim>\<open>TRADE_AMOUNT = 0.05\<close>; \<open>beta\<close>, the current
  spread, the rolling mean and the two bounds are computed earlier in the pass and
  are parameters here. Both legs are always submitted, one after the other.
\<close>

record pair_trader =
  pair_position :: int
  entry_BTC :: "real option"
  entry_ETH :: "real option"
  entry_spread :: "real option"
  cum_profit :: real

definition spread_enter ::
  "exchange \<Rightarrow> int \<Rightarrow> string \<Rightarrow> string \<Rightarrow> real \<Rightarrow> real \<Rightarrow> real \<Rightarrow> real
     \<Rightarrow> pair_trader \<times> trade list \<Rightarrow> pair_trader \<times> trade list" where
  "spread_enter ex side eth_side btc_side amount current_spread BTC_close ETH_close = (\<lambda>(s, sent).
     (let (order1, sent1) = send_trade_order ex ''ETH'' eth_side amount ETH_close sent;
          (order2, sent2) = send_trade_order ex ''BTC'' btc_side amount BTC_close sent1
      in if order1 \<and> order2
         then (s\<lparr>pair_position := side, entry_spread := Some current_spread,
                 entry_BTC := Some BTC_close, entry_ETH := Some ETH_close\<rparr>, sent2)
         else (s, sent2)))"

definition spread_exit ::
  "exchange \<Rightarrow> string \<Rightarrow> string \<Rightarrow> real \<Rightarrow> real \<Rightarrow> real \<Rightarrow> real
     \<Rightarrow> pair_trader \<times> trade list \<Rightarrow> pair_trader \<times> trade list" where
  "spread_exit ex eth_side btc_side amount profit_trade BTC_close ETH_close = (\<lambda>(s, sent).
     (let s1 = s\<lparr>cum_profit := cum_profit s + profit_trade\<rparr>;
          (order1, sent1) = send_trade_order ex ''ETH'' eth_side amount ETH_close sent;
          (order2, sent2) = send_trade_order ex ''BTC'' btc_side amount BTC_close sent1
      in if order1 \<and> order2
         then (s1\<lparr>pair_position := 0, entry_spread := None,
                  entry_BTC := None, entry_ETH := None\<rparr>, sent2)
         else (s1, sent2)))"

definition spread_trade ::
  "exchange \<Rightarrow> real \<Rightarrow> real \<Rightarrow> real \<Rightarrow> real \<Rightarrow> real \<Rightarrow> real \<Rightarrow> real
     \<Rightarrow> pair_trader \<times> trade list \<Rightarrow> py_error + pair_trader \<times> trade list" where
  "spread_trade ex beta BTC_close ETH_close current_spread rolling_mean upper_bound lower_bound =
   (\<lambda>(s, sent).
     if pair_position s = 0 then
       if current_spread > upper_bound then
         Inr (spread_enter ex (- 1) ''sell'' ''buy'' 0.05 current_spread BTC_close ETH_close (s, sent))
       else if current_spread < lower_bound then
         Inr (spread_enter ex 1 ''buy'' ''sell'' 0.05 current_spread BTC_close ETH_close (s, sent))
       else Inr (s, sent)
     else
       if pair_position s = 1 \<and> current_spread \<ge> rolling_mean then
         (case (entry_ETH s, entry_BTC s) of
            (Some eE, Some eB) \<Rightarrow>
              Inr (spread_exit ex ''sell'' ''buy'' 0.05
                     ((ETH_close - eE) - beta * (BTC_close - eB)) BTC_close ETH_close (s, sent))
          | _ \<Rightarrow> Inl TypeError)
       else if pair_position s = - 1 \<and> current_spread \<le> rolling_mean then
         (case (entry_ETH s, entry_BTC s) of
            (Some eE, Some eB) \<Rightarrow>
              Inr (spread_exit ex ''buy'' ''sell'' 0.05
                     (beta * (BTC_close - eB) - (ETH_close - eE)) BTC_close ETH_close (s, sent))
          | _ \<Rightarrow> Inl TypeError)
       else Inr (s, sent))"

text \<open>
  The trading logic of \<^verbatim>\<open>relative_arbitrage.main\<close>, lines 160-210: the same shape on the
  ETH/BTC ratio, with \<^verbatim>\<open>TRADE_AMOUNT = 0.02\<close>; the ratio at entry is kept where
  \<^verbatim>\<open>spread_bot\<close> keeps the entry spread, and it takes the place of \<open>beta\<close> in the profit.
\<close>

definition arbitrage_trade ::
  "exchange \<Rightarrow> real \<Rightarrow> real \<Rightarrow> real \<Rightarrow> real \<Rightarrow> real \<Rightarrow> real
     \<Rightarrow> pair_trader \<times> trade list \<Rightarrow> py_error + pair_trader \<times> trade list" where
  "arbitrage_trade ex BTC_price ETH_price current_ratio rolling_mean upper_threshold lower_threshold =
   (\<lambda>(s, sent).
     if pair_position s = 0 then
       if current_ratio > upper_threshold then
         Inr (spread_enter ex (- 1) ''sell'' ''buy'' 0.02 current_ratio BTC_price ETH_price (s, sent))
       else if current_ratio < lower_threshold then
         Inr (spread_enter ex 1 ''buy'' ''sell'' 0.02 current_ratio BTC_price ETH_price (s, sent))
       else Inr (s, sent)
     else
       if pair_position s = 1 \<and> current_ratio \<ge> rolling_mean then
         (case (entry_ETH s, entry_spread s, entry_BTC s) of
            (Some eE, Some entry_ratio, Some eB) \<Rightarrow>
              Inr (spread_exit ex ''sell'' ''buy'' 0.02
                     ((ETH_price - eE) - entry_ratio * (BTC_price - eB)) BTC_price ETH_price (s, sent))
          | _ \<Rightarrow> Inl TypeError)
       else if pair_position s = - 1 \<and> current_ratio \<le> rolling_mean then
         (case (entry_ETH s, entry_spread s, entry_BTC s) of
            (Some eE, Some entry_ratio, Some eB) \<Rightarrow>
              Inr (spread_exit ex ''buy'' ''sell'' 0.02
                     (entry_ratio * (BTC_price - eB) - (ETH_price - eE)) BTC_price ETH_price (s, sent))
          | _ \<Rightarrow> Inl TypeError)
       else Inr (s, sent))"

section \<open>GNN_1.py\<close>

text \<open>
  The globals \<^verbatim>\<open>in_position\<close> and \<^verbatim>\<open>entry_price\<close>, and the trading logic of \<^verbatim>\<open>main\<close>,
  lines 171-193. \<open>decision\<close> is the arg-max of the three network outputs; the network
  is loaded from a pickle file and is outside the source, so the decision is an input.
  On a successful sell the script sets \<^verbatim>\<open>in_position = False\<close>, computes
  \<^verbatim>\<open>current_close - entry_price\<close> for the log line, then clears \<^verbatim>\<open>entry_price\<close>.
\<close>

record net_trader =
  in_position :: bool
  net_entry_price :: "real option"

definition net_trade ::
  "exchange \<Rightarrow> int \<Rightarrow> real \<Rightarrow> net_trader \<times> trade list \<Rightarrow> py_error + net_trader \<times> trade list" where
  "net_trade ex decision current_close = (\<lambda>(s, sent).
     if decision = 1 then
       if \<not> in_position s then
         (let (ok, sent1) = send_trade_order ex ''BTC'' ''buy'' 0.01 current_close sent
          in if ok then Inr (s\<lparr>in_position := True, net_entry_price := Some current_close\<rparr>, sent1)
             else Inr (s, sent1))
       else Inr (s, sent)
     else if decision = 2 then
       if in_position s then
         (let (ok, sent1) = send_trade_order ex ''BTC'' ''sell'' 0.01 current_close sent
          in if ok then
               (case net_entry_price s of
                  None \<Rightarrow> Inl TypeError
                | Some e \<Rightarrow> Inr (s\<lparr>in_position := False, net_entry_price := None\<rparr>, sent1))
             else Inr (s, sent1))
       else Inr (s, sent)
     else Inr (s, sent))"

text \<open>The loop: one decision and one price per pass; an exception ends the process.\<close>

fun net_run ::
  "exchange \<Rightarrow> (int \<times> real) list \<Rightarrow> net_trader \<times> trade list \<Rightarrow> py_error + net_trader \<times> trade list" where
  "net_run ex [] st = Inr st"
| "net_run ex ((decision, current_close) # ticks) st =
     (case net_trade ex decision current_close st of
        Inl e \<Rightarrow> Inl e
      | Inr st' \<Rightarrow> net_run ex ticks st')"

text \<open>What the executed orders add up to: buys filled minus sells filled.\<close>

definition net_holding :: "trade list \<Rightarrow> int" where
  "net_holding sent =
     int (length (filter (\<lambda>t. t_ok t \<and> t_side t = ''buy'') sent))
     - int (length (filter (\<lambda>t. t_ok t \<and> t_side t = ''sell'') sent))"

text \<open>
  The state the loop keeps: an entry price is recorded exactly while a position is
  open, and the orders filled add up to one unit while a position is open and to
  nothing otherwise.
\<close>

definition net_consistent :: "net_trader \<times> trade list \<Rightarrow> bool" where
  "net_consistent st =
     ((in_position (fst st) = (net_entry_price (fst st) \<noteq> None))
      \<and> net_holding (snd st) = (if in_position (fst st) then 1 else 0))"

section \<open>Shared facts\<close>

lemma send_trade_order_eq:
  "send_trade_order ex symbol side amount price sent =
     (ex (length sent),
      sent @ [\<lparr>t_symbol = symbol, t_side = side, t_amount = amount,
                t_price = price, t_ok = ex (length sent)\<rparr>])"
  by (simp add: send_trade_order_def Let_def)

section \<open>Rolling buffer: capacity and contents\<close>

lemma push_slice_step:
  "1 \<le> N \<Longrightarrow>
   push_slice N (drop (length vs - N) vs) v = drop (length (vs @ [v]) - N) (vs @ [v])"
  by (auto simp: push_slice_def py_last_def Let_def Suc_diff_le)

lemma push_pop_step:
  assumes "1 \<le> N"
  shows "push_pop N (drop (length vs - N) vs) v = drop (length (vs @ [v]) - N) (vs @ [v])"
proof (cases "N \<le> length vs")
  case True
  let ?b = "drop (length vs - N) vs"
  from True assms have ne: "?b \<noteq> []" and len: "length ?b = N" by auto
  have "tl (?b @ [v]) = tl ?b @ [v]" using ne by simp
  also have "tl ?b = drop (Suc (length vs - N)) vs" by (simp add: drop_Suc tl_drop)
  finally have "tl (?b @ [v]) = drop (length (vs @ [v]) - N) (vs @ [v])"
    using True assms by (simp add: Suc_diff_le)
  moreover have "push_pop N ?b v = tl (?b @ [v])"
    unfolding push_pop_def Let_def using len by simp
  ultimately show ?thesis by simp
next
  case False
  then show ?thesis by (simp add: push_pop_def Let_def)
qed

lemma push_slice_recent:
  "1 \<le> N \<Longrightarrow> foldl (push_slice N) [] vs = drop (length vs - N) vs"
proof (induction vs rule: rev_induct)
  case Nil
  then show ?case by simp
next
  case (snoc v vs)
  then show ?case using push_slice_step [of N vs v] by simp
qed

lemma push_pop_recent:
  "1 \<le> N \<Longrightarrow> foldl (push_pop N) [] vs = drop (length vs - N) vs"
proof (induction vs rule: rev_induct)
  case Nil
  then show ?case by simp
next
  case (snoc v vs)
  then show ?case using push_pop_step [of N vs v] by simp
qed

text \<open>
  Claim C8. Both ways the scripts keep a rolling history (slice to the last \<open>N\<close>, or
  pop the oldest), started from the empty list and fed any finite sequence \<open>vs\<close> of
  values, hold at most \<open>N\<close> values, and hold exactly the last \<open>N\<close> values pushed (all of
  them while fewer than \<open>N\<close> have arrived), oldest first. Since \<open>vs\<close> is arbitrary, this
  covers the buffer after every single push. With capacity 3, pushing 10, 20, 30, 40
  leaves [20, 30, 40].
\<close>

theorem rolling_buffer_most_recent:
  assumes "1 \<le> N"
  shows "length (foldl (push_slice N) [] vs) \<le> N
       \<and> foldl (push_slice N) [] vs = drop (length vs - N) vs
       \<and> length (foldl (push_pop N) [] vs) \<le> N
       \<and> foldl (push_pop N) [] vs = drop (length vs - N) vs
       \<and> foldl (push_slice 3) [] [10, 20, 30, 40 :: real] = [20, 30, 40]
       \<and> foldl (push_pop 3) [] [10, 20, 30, 40 :: real] = [20, 30, 40]"
proof -
  have a: "foldl (push_slice N) [] vs = drop (length vs - N) vs"
    using assms by (rule push_slice_recent)
  have b: "foldl (push_pop N) [] vs = drop (length vs - N) vs"
    using assms by (rule push_pop_recent)
  have c: "length (drop (length vs - N) vs) \<le> N" by simp
  have d: "foldl (push_slice 3) [] [10, 20, 30, 40 :: real] = [20, 30, 40]"
    by (simp add: push_slice_def py_last_def)
  have e: "foldl (push_pop 3) [] [10, 20, 30, 40 :: real] = [20, 30, 40]"
    by (simp add: push_pop_def)
  show ?thesis using a b c d e by simp
qed

theorem rolling_buffer_most_recent_witness:
  "(1::nat) \<le> 2
   \<and> foldl (push_slice 2) [] [7, 8, 9 :: real] = [8, 9]
   \<and> foldl (push_pop 2) [] [7, 8, 9 :: real] = [8, 9]
   \<and> length (foldl (push_slice 2) [] [7, 8, 9 :: real]) \<le> 2"
  using rolling_buffer_most_recent [of 2 "[7, 8, 9 :: real]"] by simp

section \<open>Flip with a failing second order\<close>

text \<open>
  Claim C1. A Flip whose Exit order succeeds and whose Enter order fails should end
  the pass Flat. In \<^verbatim>\<open>DualMovingAverage.main\<close> and in
  \<^verbatim>\<open>Reinforcement_bot.execute_action\<close> the branch that exits a short credits the profit
  and prints that the short was exited, but assigns \<^verbatim>\<open>position\<close> only inside the
  \<^verbatim>\<open>if\<close> of the second order. Short at 100, price 90, first order filled, second
  refused: the pass ends with the position still -1 (short), the entry price still 100,
  and the 10 of profit credited.
\<close>

theorem flip_enter_failure_keeps_old_side:
  "dual_ma_trade (\<lambda>k. k = 0) 105 100 90
       (\<lparr>position = - 1, entry_price = Some 100, profit = 0\<rparr>, [])
     = Inr (\<lparr>position = - 1, entry_price = Some 100, profit = 10\<rparr>,
         [\<lparr>t_symbol = ''BTC'', t_side = ''buy'', t_amount = 0.01, t_price = 90, t_ok = True\<rparr>,
          \<lparr>t_symbol = ''BTC'', t_side = ''buy'', t_amount = 0.01, t_price = 90, t_ok = False\<rparr>])
   \<and> execute_action (\<lambda>k. k = 0) 1 90
       (\<lparr>rl_position = - 1, rl_entry_price = Some 100, cash = 10000\<rparr>, [])
     = Inr (\<lparr>rl_position = - 1, rl_entry_price = Some 100, cash = 10010\<rparr>,
         [\<lparr>t_symbol = ''ETH'', t_side = ''buy'', t_amount = 0.1, t_price = 90, t_ok = True\<rparr>,
          \<lparr>t_symbol = ''ETH'', t_side = ''buy'', t_amount = 0.1, t_price = 90, t_ok = False\<rparr>])"
  by (simp add: dual_ma_trade_def execute_action_def send_trade_order_def)

section \<open>Entering when the order fails\<close>

lemma rsi_falling:
  "last (compute_RSI [115, 114, 113, 112, 111, 110, 109, 108, 107, 106, 105, 104, 103, 102, 101] 14) = Fin 0"
  by (simp add: compute_RSI_def rolling_window_mean_def window_mean_def fl_sub_def upt_rec [of _ "numeral _"] upt_rec [of 0])

text \<open>
  Claim C3. An Enter from Flat should change the state only when the order succeeds.
  \<^verbatim>\<open>rsi_strategy.evaluate_RSI\<close> and \<^verbatim>\<open>bollinger_bands.evaluate_bollinger_bands\<close> assign
  \<^verbatim>\<open>position\<close> and \<^verbatim>\<open>entry_price\<close> before calling \<^verbatim>\<open>send_trade_order\<close> and never
  read its result. Fifteen falling closes give RSI 0, below 30: with every order
  refused the RSI script ends the pass long at 101. With price 112 above the upper
  band 110 and the order refused, the Bollinger script ends the pass long at 112.
\<close>

theorem enter_state_set_though_order_failed:
  "evaluate_RSI (\<lambda>k. False)
       ([115, 114, 113, 112, 111, 110, 109, 108, 107, 106, 105, 104, 103, 102, 101],
        \<lparr>position = 0, entry_price = None, profit = 0\<rparr>, [])
     = Inr (\<lparr>position = 1, entry_price = Some 101, profit = 0\<rparr>,
         [\<lparr>t_symbol = ''BTC'', t_side = ''buy'', t_amount = 0.01, t_price = 101, t_ok = False\<rparr>])
   \<and> bollinger_trade (\<lambda>k. False) 100 110 90 112
       (\<lparr>position = 0, entry_price = None, profit = 0\<rparr>, [])
     = Inr (\<lparr>position = 1, entry_price = Some 112, profit = 0\<rparr>,
         [\<lparr>t_symbol = ''BTC'', t_side = ''buy'', t_amount = 0.01, t_price = 112, t_ok = False\<rparr>])"
  by (simp add: evaluate_RSI_def rsi_falling rsi_trade_def bollinger_trade_def send_trade_order_def)

section \<open>Exiting a pair position when the orders fail\<close>

text \<open>
  Claim C4. The profit of an Exit should be credited together with the transition to
  Flat, and not at all when the exit orders fail. \<^verbatim>\<open>spread_bot.main\<close> and
  \<^verbatim>\<open>relative_arbitrage.main\<close> add \<^verbatim>\<open>profit_trade\<close> to \<^verbatim>\<open>cum_profit\<close> before the two
  orders are sent. Long spread entered at ETH 3000 and BTC 100000, exit signal at ETH
  3100: with both orders refused the position stays open and 100 is credited; on the
  next pass, same prices, both orders filled, 100 is credited again, 200 in all for
  one trade. The ratio script credits 100 in the same way with both orders refused.
\<close>

theorem failed_exit_credits_profit_each_pass:
  "spread_trade (\<lambda>k. False) 0.03 100000 3100 100 50 120 (- 20)
       (\<lparr>pair_position = 1, entry_BTC = Some 100000, entry_ETH = Some 3000,
         entry_spread = Some 0, cum_profit = 0\<rparr>, [])
     = Inr (\<lparr>pair_position = 1, entry_BTC = Some 100000, entry_ETH = Some 3000,
             entry_spread = Some 0, cum_profit = 100\<rparr>,
         [\<lparr>t_symbol = ''ETH'', t_side = ''sell'', t_amount = 0.05, t_price = 3100, t_ok = False\<rparr>,
          \<lparr>t_symbol = ''BTC'', t_side = ''buy'', t_amount = 0.05, t_price = 100000, t_ok = False\<rparr>])
   \<and> spread_trade (\<lambda>k. 2 \<le> k) 0.03 100000 3100 100 50 120 (- 20)
       (\<lparr>pair_position = 1, entry_BTC = Some 100000, entry_ETH = Some 3000,
         entry_spread = Some 0, cum_profit = 100\<rparr>,
        [\<lparr>t_symbol = ''ETH'', t_side = ''sell'', t_amount = 0.05, t_price = 3100, t_ok = False\<rparr>,
         \<lparr>t_symbol = ''BTC'', t_side = ''buy'', t_amount = 0.05, t_price = 100000, t_ok = False\<rparr>])
     = Inr (\<lparr>pair_position = 0, entry_BTC = None, entry_ETH = None,
             entry_spread = None, cum_profit = 200\<rparr>,
         [\<lparr>t_symbol = ''ETH'', t_side = ''sell'', t_amount = 0.05, t_price = 3100, t_ok = False\<rparr>,
          \<lparr>t_symbol = ''BTC'', t_side = ''buy'', t_amount = 0.05, t_price = 100000, t_ok = False\<rparr>,
          \<lparr>t_symbol = ''ETH'', t_side = ''sell'', t_amount = 0.05, t_price = 3100, t_ok = True\<rparr>,
          \<lparr>t_symbol = ''BTC'', t_side = ''buy'', t_amount = 0.05, t_price = 100000, t_ok = True\<rparr>])
   \<and> arbitrage_trade (\<lambda>k. False) 100000 3100 (31 / 1000) (3 / 100) (4 / 100) (2 / 100)
       (\<lparr>pair_position = 1, entry_BTC = Some 100000, entry_ETH = Some 3000,
         entry_spread = Some (3 / 100), cum_profit = 0\<rparr>, [])
     = Inr (\<lparr>pair_position = 1, entry_BTC = Some 100000, entry_ETH = Some 3000,
             entry_spread = Some (3 / 100), cum_profit = 100\<rparr>,
         [\<lparr>t_symbol = ''ETH'', t_side = ''sell'', t_amount = 0.02, t_price = 3100, t_ok = False\<rparr>,
          \<lparr>t_symbol = ''BTC'', t_side = ''buy'', t_amount = 0.02, t_price = 100000, t_ok = False\<rparr>])"
  by (simp add: spread_trade_def arbitrage_trade_def spread_exit_def send_trade_order_def)

section \<open>Crossover when the averages are equal\<close>

lemma mean_replicate: "0 < n \<Longrightarrow> mean (replicate n x) = x"
  by (simp add: mean_def sum_list_replicate)

lemma replicate_50: "replicate 49 x @ [x] = replicate 50 x"
proof -
  have "replicate 49 x @ [x] = replicate (Suc 49) x"
    by (simp only: replicate_append_same replicate_Suc)
  then show ?thesis by simp
qed

text \<open>
  Claim C6. Equal fast and slow averages should be a Hold. \<^verbatim>\<open>DualMovingAverage.main\<close>
  tests \<^verbatim>\<open>fast_ma > slow_ma\<close> and puts everything else under \<^verbatim>\<open>else\<close>, which its
  comment calls "fast MA < slow MA"; \<^verbatim>\<open>moving_average\<close> computes the desired position
  as \<^verbatim>\<open>1 if current_price > moving_average else -1\<close>. Fifty prices of 100 make both
  averages 100: Flat, the crossover script sells and goes short; long from 90, it
  exits and goes short; the single-average script, Flat, goes short as well.
\<close>

theorem equal_averages_enter_short:
  "dual_ma_tick (\<lambda>k. True) (Some 100)
       (replicate 49 100, \<lparr>position = 0, entry_price = None, profit = 0\<rparr>, [])
     = Inr (replicate 50 100, \<lparr>position = - 1, entry_price = Some 100, profit = 0\<rparr>,
         [\<lparr>t_symbol = ''BTC'', t_side = ''sell'', t_amount = 0.01, t_price = 100, t_ok = True\<rparr>])
   \<and> mean (py_last 10 (replicate 50 (100::real))) = mean (replicate 50 100)
   \<and> dual_ma_trade (\<lambda>k. True) 100 100 100
       (\<lparr>position = 1, entry_price = Some 90, profit = 0\<rparr>, [])
     = Inr (\<lparr>position = - 1, entry_price = Some 100, profit = 10\<rparr>,
         [\<lparr>t_symbol = ''BTC'', t_side = ''sell'', t_amount = 0.01, t_price = 100, t_ok = True\<rparr>,
          \<lparr>t_symbol = ''BTC'', t_side = ''sell'', t_amount = 0.01, t_price = 100, t_ok = True\<rparr>])
   \<and> evaluate_moving_average (\<lambda>k. True)
       (replicate 50 100, \<lparr>position = 0, entry_price = None, profit = 0\<rparr>, [])
     = Inr (\<lparr>position = - 1, entry_price = Some 100, profit = 0\<rparr>,
         [\<lparr>t_symbol = ''BTC'', t_side = ''sell'', t_amount = 0.01, t_price = 100, t_ok = True\<rparr>])"
proof -
  have h: "push_slice 50 (replicate 49 100) (100::real) = replicate 50 100"
    unfolding push_slice_def Let_def replicate_50 by simp
  have f: "py_last 10 (replicate 50 (100::real)) = replicate 10 100"
    by (simp add: py_last_def)
  have g: "py_last 50 (replicate 50 (100::real)) = replicate 50 100"
    by (simp add: py_last_def)
  have a: "dual_ma_tick (\<lambda>k. True) (Some 100)
       (replicate 49 100, \<lparr>position = 0, entry_price = None, profit = 0\<rparr>, [])
     = Inr (replicate 50 100, \<lparr>position = - 1, entry_price = Some 100, profit = 0\<rparr>,
         [\<lparr>t_symbol = ''BTC'', t_side = ''sell'', t_amount = 0.01, t_price = 100, t_ok = True\<rparr>])"
    by (simp add: dual_ma_tick_def h f mean_replicate dual_ma_trade_def send_trade_order_def)
  have b: "mean (py_last 10 (replicate 50 (100::real))) = mean (replicate 50 100)"
    by (simp add: f mean_replicate)
  have c: "dual_ma_trade (\<lambda>k. True) 100 100 100
       (\<lparr>position = 1, entry_price = Some 90, profit = 0\<rparr>, [])
     = Inr (\<lparr>position = - 1, entry_price = Some 100, profit = 10\<rparr>,
         [\<lparr>t_symbol = ''BTC'', t_side = ''sell'', t_amount = 0.01, t_price = 100, t_ok = True\<rparr>,
          \<lparr>t_symbol = ''BTC'', t_side = ''sell'', t_amount = 0.01, t_price = 100, t_ok = True\<rparr>])"
    by (simp add: dual_ma_trade_def send_trade_order_def)
  have d: "evaluate_moving_average (\<lambda>k. True)
       (replicate 50 100, \<lparr>position = 0, entry_price = None, profit = 0\<rparr>, [])
     = Inr (\<lparr>position = - 1, entry_price = Some 100, profit = 0\<rparr>,
         [\<lparr>t_symbol = ''BTC'', t_side = ''sell'', t_amount = 0.01, t_price = 100, t_ok = True\<rparr>])"
    by (simp add: evaluate_moving_average_def g sum_list_replicate send_trade_order_def)
  show ?thesis using a b c d by simp
qed

section \<open>Two-leg entries with one leg failing\<close>

lemma spread_enter_result:
  "spread_enter ex side eth_side btc_side amount current_spread BTC_close ETH_close (s, sent) =
     ((if ex (length sent) \<and> ex (Suc (length sent))
       then s\<lparr>pair_position := side, entry_spread := Some current_spread,
              entry_BTC := Some BTC_close, entry_ETH := Some ETH_close\<rparr>
       else s),
      sent @ [\<lparr>t_symbol = ''ETH'', t_side = eth_side, t_amount = amount,
                t_price = ETH_close, t_ok = ex (length sent)\<rparr>,
              \<lparr>t_symbol = ''BTC'', t_side = btc_side, t_amount = amount,
                t_price = BTC_close, t_ok = ex (Suc (length sent))\<rparr>])"
  by (simp add: spread_enter_def send_trade_order_def Let_def)

text \<open>
  Claim C2, as stated: a two-leg Enter in which one leg succeeds and the other fails
  is reported as a failure mode of its own, PartialFill, distinct from full success
  and from plain failure. The scripts compute one thing from the two results,
  \<^verbatim>\<open>order1 and order2\<close>, and do nothing when it is false: entering a short spread with
  the ETH leg filled and the BTC leg refused leaves exactly the trading state that
  both legs refused leave. The two runs differ only in the line
  \<^verbatim>\<open>send_trade_order\<close> prints for each order.
\<close>

theorem partial_fill_same_state_as_total_failure:
  "spread_trade (\<lambda>k. k = 0) 0.03 100000 3200 200 50 120 (- 20)
       (\<lparr>pair_position = 0, entry_BTC = None, entry_ETH = None,
         entry_spread = None, cum_profit = 0\<rparr>, [])
     = Inr (\<lparr>pair_position = 0, entry_BTC = None, entry_ETH = None,
             entry_spread = None, cum_profit = 0\<rparr>,
         [\<lparr>t_symbol = ''ETH'', t_side = ''sell'', t_amount = 0.05, t_price = 3200, t_ok = True\<rparr>,
          \<lparr>t_symbol = ''BTC'', t_side = ''buy'', t_amount = 0.05, t_price = 100000, t_ok = False\<rparr>])
   \<and> spread_trade (\<lambda>k. False) 0.03 100000 3200 200 50 120 (- 20)
       (\<lparr>pair_position = 0, entry_BTC = None, entry_ETH = None,
         entry_spread = None, cum_profit = 0\<rparr>, [])
     = Inr (\<lparr>pair_position = 0, entry_BTC = None, entry_ETH = None,
             entry_spread = None, cum_profit = 0\<rparr>,
         [\<lparr>t_symbol = ''ETH'', t_side = ''sell'', t_amount = 0.05, t_price = 3200, t_ok = False\<rparr>,
          \<lparr>t_symbol = ''BTC'', t_side = ''buy'', t_amount = 0.05, t_price = 100000, t_ok = False\<rparr>])
   \<and> fst (spread_enter (\<lambda>k. k = 0) (- 1) ''sell'' ''buy'' 0.05 200 100000 3200
            (\<lparr>pair_position = 0, entry_BTC = None, entry_ETH = None,
              entry_spread = None, cum_profit = 0\<rparr>, []))
     = fst (spread_enter (\<lambda>k. False) (- 1) ''sell'' ''buy'' 0.05 200 100000 3200
            (\<lparr>pair_position = 0, entry_BTC = None, entry_ETH = None,
              entry_spread = None, cum_profit = 0\<rparr>, []))"
  by (simp add: spread_trade_def spread_enter_result)

text \<open>
  Claim C2, amended. For every two-leg Enter from Flat (short or long spread, in
  \<^verbatim>\<open>spread_bot\<close> and in \<^verbatim>\<open>relative_arbitrage\<close>) in which exactly one leg succeeds: both
  legs are submitted, the ETH leg first; the trading state is returned unchanged, so
  the position stays Flat, no entry price, spread or ratio is recorded and the
  cumulative profit is untouched; and the only record of the outcome is the order log,
  which holds each of the two legs with its own success flag. No aggregate result is
  produced.
\<close>

theorem two_leg_enter_one_leg_fails:
  assumes "pair_position s = 0"
      and "ex (length sent) \<noteq> ex (Suc (length sent))"
  shows "(current > upper \<longrightarrow>
            spread_trade ex beta BTC ETH current m upper lower (s, sent)
              = Inr (s, sent @ [\<lparr>t_symbol = ''ETH'', t_side = ''sell'', t_amount = 0.05,
                                 t_price = ETH, t_ok = ex (length sent)\<rparr>,
                               \<lparr>t_symbol = ''BTC'', t_side = ''buy'', t_amount = 0.05,
                                 t_price = BTC, t_ok = ex (Suc (length sent))\<rparr>])
          \<and> arbitrage_trade ex BTC ETH current m upper lower (s, sent)
              = Inr (s, sent @ [\<lparr>t_symbol = ''ETH'', t_side = ''sell'', t_amount = 0.02,
                                 t_price = ETH, t_ok = ex (length sent)\<rparr>,
                               \<lparr>t_symbol = ''BTC'', t_side = ''buy'', t_amount = 0.02,
                                 t_price = BTC, t_ok = ex (Suc (length sent))\<rparr>]))
       \<and> (\<not> current > upper \<and> current < lower \<longrightarrow>
            spread_trade ex beta BTC ETH current m upper lower (s, sent)
              = Inr (s, sent @ [\<lparr>t_symbol = ''ETH'', t_side = ''buy'', t_amount = 0.05,
                                 t_price = ETH, t_ok = ex (length sent)\<rparr>,
                               \<lparr>t_symbol = ''BTC'', t_side = ''sell'', t_amount = 0.05,
                                 t_price = BTC, t_ok = ex (Suc (length sent))\<rparr>])
          \<and> arbitrage_trade ex BTC ETH current m upper lower (s, sent)
              = Inr (s, sent @ [\<lparr>t_symbol = ''ETH'', t_side = ''buy'', t_amount = 0.02,
                                 t_price = ETH, t_ok = ex (length sent)\<rparr>,
                               \<lparr>t_symbol = ''BTC'', t_side = ''sell'', t_amount = 0.02,
                                 t_price = BTC, t_ok = ex (Suc (length sent))\<rparr>]))"
proof -
  from assms(2) have no: "\<not> (ex (length sent) \<and> ex (Suc (length sent)))" by auto
  show ?thesis
    using assms(1) no by (auto simp: spread_trade_def arbitrage_trade_def spread_enter_result)
qed

theorem two_leg_enter_one_leg_fails_witness:
  "pair_position \<lparr>pair_position = 0, entry_BTC = None, entry_ETH = None,
                  entry_spread = None, cum_profit = 0\<rparr> = 0
   \<and> (\<lambda>k::nat. k = 0) (length ([]::trade list)) \<noteq> (\<lambda>k::nat. k = 0) (Suc (length ([]::trade list)))
   \<and> (200::real) > 120
   \<and> spread_trade (\<lambda>k. k = 0) 0.03 100000 3200 200 50 120 (- 20)
       (\<lparr>pair_position = 0, entry_BTC = None, entry_ETH = None,
         entry_spread = None, cum_profit = 0\<rparr>, [])
     = Inr (\<lparr>pair_position = 0, entry_BTC = None, entry_ETH = None,
             entry_spread = None, cum_profit = 0\<rparr>,
         [\<lparr>t_symbol = ''ETH'', t_side = ''sell'', t_amount = 0.05, t_price = 3200, t_ok = True\<rparr>,
          \<lparr>t_symbol = ''BTC'', t_side = ''buy'', t_amount = 0.05, t_price = 100000, t_ok = False\<rparr>])"
  using two_leg_enter_one_leg_fails
    [where s = "\<lparr>pair_position = 0, entry_BTC = None, entry_ETH = None,
          entry_spread = None, cum_profit = 0\<rparr>" and ex = "\<lambda>k. k = 0" and sent = "[]"
       and current = 200 and upper = 120 and beta = "0.03" and BTC = 100000 and ETH = 3200
       and m = 50 and lower = "- 20"]
  by simp

section \<open>Realized profit of a round trip\<close>

text \<open>
  Claim C5, as stated: a Long entered at P1 and exited at P2 credits (P2 - P1) times
  the size. No script multiplies by \<^verbatim>\<open>TRADE_AMOUNT\<close>: \<^verbatim>\<open>momentum_bot\<close> trades 0.01 BTC,
  enters long at 100, exits at 150, and credits 50, not 0.5.
\<close>

theorem profit_credited_without_size:
  "momentum_trade (\<lambda>k. True) 60 100 (\<lparr>position = 0, entry_price = None, profit = 0\<rparr>, [])
     = Inr (\<lparr>position = 1, entry_price = Some 100, profit = 0\<rparr>,
         [\<lparr>t_symbol = ''BTC'', t_side = ''buy'', t_amount = 0.01, t_price = 100, t_ok = True\<rparr>])
   \<and> momentum_trade (\<lambda>k. True) (- 10) 150
       (\<lparr>position = 1, entry_price = Some 100, profit = 0\<rparr>,
        [\<lparr>t_symbol = ''BTC'', t_side = ''buy'', t_amount = 0.01, t_price = 100, t_ok = True\<rparr>])
     = Inr (\<lparr>position = 0, entry_price = None, profit = 50\<rparr>,
         [\<lparr>t_symbol = ''BTC'', t_side = ''buy'', t_amount = 0.01, t_price = 100, t_ok = True\<rparr>,
          \<lparr>t_symbol = ''BTC'', t_side = ''sell'', t_amount = 0.01, t_price = 150, t_ok = True\<rparr>])
   \<and> (50::real) \<noteq> (150 - 100) * 0.01"
  by (simp add: momentum_trade_def send_trade_order_def)

text \<open>
  Claim C5, amended. When the entry order and the exit order are both filled, the
  profit credited is the price difference itself, whatever the trade amount: P2 - P1
  for a Long entered at P1 and exited at P2, P1 - P2 for a Short. In \<^verbatim>\<open>momentum_bot\<close>
  and in \<^verbatim>\<open>bollinger_bands\<close> an entry whose order is filled records P1 as the entry
  price, and an exit whose order is filled credits the difference and returns to Flat
  with the entry price cleared. \<open>s\<close> is any Flat state, \<open>h\<close> any state long from P1,
  \<open>k\<close> any state short from P1; \<open>ex (length sent)\<close> says that the order submitted in
  this pass is filled.
\<close>

theorem realized_profit_is_price_difference:
  assumes "position s = 0"
      and "position h = 1" and "entry_price h = Some P1"
      and "position k = - 1" and "entry_price k = Some P1"
      and "ex (length sent)"
  shows "(m_buy > 50 \<longrightarrow>
            momentum_trade ex m_buy P1 (s, sent)
              = Inr (s\<lparr>position := 1, entry_price := Some P1\<rparr>,
                     sent @ [\<lparr>t_symbol = ''BTC'', t_side = ''buy'', t_amount = 0.01,
                              t_price = P1, t_ok = True\<rparr>]))
       \<and> (m_down < 0 \<longrightarrow>
            momentum_trade ex m_down P2 (h, sent)
              = Inr (h\<lparr>profit := profit h + (P2 - P1), position := 0, entry_price := None\<rparr>,
                     sent @ [\<lparr>t_symbol = ''BTC'', t_side = ''sell'', t_amount = 0.01,
                              t_price = P2, t_ok = True\<rparr>]))
       \<and> (m_sell < - 50 \<longrightarrow>
            momentum_trade ex m_sell P1 (s, sent)
              = Inr (s\<lparr>position := - 1, entry_price := Some P1\<rparr>,
                     sent @ [\<lparr>t_symbol = ''BTC'', t_side = ''sell'', t_amount = 0.01,
                              t_price = P1, t_ok = True\<rparr>]))
       \<and> (m_up > 0 \<longrightarrow>
            momentum_trade ex m_up P2 (k, sent)
              = Inr (k\<lparr>profit := profit k + (P1 - P2), position := 0, entry_price := None\<rparr>,
                     sent @ [\<lparr>t_symbol = ''BTC'', t_side = ''buy'', t_amount = 0.01,
                              t_price = P2, t_ok = True\<rparr>]))
       \<and> (P1 > upper \<longrightarrow>
            bollinger_trade ex ma upper lower P1 (s, sent)
              = Inr (s\<lparr>position := 1, entry_price := Some P1\<rparr>,
                     sent @ [\<lparr>t_symbol = ''BTC'', t_side = ''buy'', t_amount = 0.01,
                              t_price = P1, t_ok = True\<rparr>]))
       \<and> (P2 < ma_long \<longrightarrow>
            bollinger_trade ex ma_long upper lower P2 (h, sent)
              = Inr (h\<lparr>profit := profit h + (P2 - P1), position := 0, entry_price := None\<rparr>,
                     sent @ [\<lparr>t_symbol = ''BTC'', t_side = ''sell'', t_amount = 0.01,
                              t_price = P2, t_ok = True\<rparr>]))
       \<and> (\<not> P1 > upper_s \<and> P1 < lower_s \<longrightarrow>
            bollinger_trade ex ma upper_s lower_s P1 (s, sent)
              = Inr (s\<lparr>position := - 1, entry_price := Some P1\<rparr>,
                     sent @ [\<lparr>t_symbol = ''BTC'', t_side = ''sell'', t_amount = 0.01,
                              t_price = P1, t_ok = True\<rparr>]))
       \<and> (P2 > ma_short \<longrightarrow>
            bollinger_trade ex ma_short upper lower P2 (k, sent)
              = Inr (k\<lparr>profit := profit k + (P1 - P2), position := 0, entry_price := None\<rparr>,
                     sent @ [\<lparr>t_symbol = ''BTC'', t_side = ''buy'', t_amount = 0.01,
                              t_price = P2, t_ok = True\<rparr>]))"
proof -
  note filled = assms(6)
  have a: "m_buy > 50 \<longrightarrow>
            momentum_trade ex m_buy P1 (s, sent)
              = Inr (s\<lparr>position := 1, entry_price := Some P1\<rparr>,
                     sent @ [\<lparr>t_symbol = ''BTC'', t_side = ''buy'', t_amount = 0.01,
                              t_price = P1, t_ok = True\<rparr>])"
    using assms(1) filled by (simp add: momentum_trade_def send_trade_order_eq)
  have b: "m_down < 0 \<longrightarrow>
            momentum_trade ex m_down P2 (h, sent)
              = Inr (h\<lparr>profit := profit h + (P2 - P1), position := 0, entry_price := None\<rparr>,
                     sent @ [\<lparr>t_symbol = ''BTC'', t_side = ''sell'', t_amount = 0.01,
                              t_price = P2, t_ok = True\<rparr>])"
    using assms(2,3) filled by (simp add: momentum_trade_def send_trade_order_eq)
  have c: "m_sell < - 50 \<longrightarrow>
            momentum_trade ex m_sell P1 (s, sent)
              = Inr (s\<lparr>position := - 1, entry_price := Some P1\<rparr>,
                     sent @ [\<lparr>t_symbol = ''BTC'', t_side = ''sell'', t_amount = 0.01,
                              t_price = P1, t_ok = True\<rparr>])"
    using assms(1) filled by (simp add: momentum_trade_def send_trade_order_eq)
  have d: "m_up > 0 \<longrightarrow>
            momentum_trade ex m_up P2 (k, sent)
              = Inr (k\<lparr>profit := profit k + (P1 - P2), position := 0, entry_price := None\<rparr>,
                     sent @ [\<lparr>t_symbol = ''BTC'', t_side = ''buy'', t_amount = 0.01,
                              t_price = P2, t_ok = True\<rparr>])"
    using assms(4,5) filled by (simp add: momentum_trade_def send_trade_order_eq)
  have e: "P1 > upper \<longrightarrow>
            bollinger_trade ex ma upper lower P1 (s, sent)
              = Inr (s\<lparr>position := 1, entry_price := Some P1\<rparr>,
                     sent @ [\<lparr>t_symbol = ''BTC'', t_side = ''buy'', t_amount = 0.01,
                              t_price = P1, t_ok = True\<rparr>])"
    using assms(1) filled by (simp add: bollinger_trade_def send_trade_order_eq)
  have f: "P2 < ma_long \<longrightarrow>
            bollinger_trade ex ma_long upper lower P2 (h, sent)
              = Inr (h\<lparr>profit := profit h + (P2 - P1), position := 0, entry_price := None\<rparr>,
                     sent @ [\<lparr>t_symbol = ''BTC'', t_side = ''sell'', t_amount = 0.01,
                              t_price = P2, t_ok = True\<rparr>])"
    using assms(2,3) filled by (simp add: bollinger_trade_def send_trade_order_eq)
  have g: "\<not> P1 > upper_s \<and> P1 < lower_s \<longrightarrow>
            bollinger_trade ex ma upper_s lower_s P1 (s, sent)
              = Inr (s\<lparr>position := - 1, entry_price := Some P1\<rparr>,
                     sent @ [\<lparr>t_symbol = ''BTC'', t_side = ''sell'', t_amount = 0.01,
                              t_price = P1, t_ok = True\<rparr>])"
    using assms(1) filled by (simp add: bollinger_trade_def send_trade_order_eq)
  have i: "P2 > ma_short \<longrightarrow>
            bollinger_trade ex ma_short upper lower P2 (k, sent)
              = Inr (k\<lparr>profit := profit k + (P1 - P2), position := 0, entry_price := None\<rparr>,
                     sent @ [\<lparr>t_symbol = ''BTC'', t_side = ''buy'', t_amount = 0.01,
                              t_price = P2, t_ok = True\<rparr>])"
    using assms(4,5) filled by (simp add: bollinger_trade_def send_trade_order_eq)
  from a b c d e f g i show ?thesis by blast
qed

theorem realized_profit_is_price_difference_witness:
  "position \<lparr>position = 0, entry_price = None, profit = 0\<rparr> = 0
   \<and> position \<lparr>position = 1, entry_price = Some 100, profit = 7\<rparr> = 1
   \<and> entry_price \<lparr>position = 1, entry_price = Some 100, profit = 7\<rparr> = Some 100
   \<and> position \<lparr>position = - 1, entry_price = Some 100, profit = 7\<rparr> = - 1
   \<and> entry_price \<lparr>position = - 1, entry_price = Some 100, profit = 7\<rparr> = Some 100
   \<and> (\<lambda>k::nat. True) (length ([]::trade list))
   \<and> (60::real) > 50 \<and> (- 10::real) < 0 \<and> (- 60::real) < - 50 \<and> (10::real) > 0
   \<and> (100::real) > 95 \<and> (150::real) < 160 \<and> \<not> (100::real) > 120 \<and> (100::real) < 110
   \<and> (150::real) > 140
   \<and> momentum_trade (\<lambda>k. True) 60 100
        (\<lparr>position = 0, entry_price = None, profit = 0\<rparr>, [])
      = Inr (\<lparr>position = 1, entry_price = Some 100, profit = 0\<rparr>,
          [\<lparr>t_symbol = ''BTC'', t_side = ''buy'', t_amount = 0.01, t_price = 100, t_ok = True\<rparr>])
   \<and> momentum_trade (\<lambda>k. True) (- 10) 150
        (\<lparr>position = 1, entry_price = Some 100, profit = 7\<rparr>, [])
      = Inr (\<lparr>position = 0, entry_price = None, profit = 57\<rparr>,
          [\<lparr>t_symbol = ''BTC'', t_side = ''sell'', t_amount = 0.01, t_price = 150, t_ok = True\<rparr>])
   \<and> momentum_trade (\<lambda>k. True) 10 150
        (\<lparr>position = - 1, entry_price = Some 100, profit = 7\<rparr>, [])
      = Inr (\<lparr>position = 0, entry_price = None, profit = - 43\<rparr>,
          [\<lparr>t_symbol = ''BTC'', t_side = ''buy'', t_amount = 0.01, t_price = 150, t_ok = True\<rparr>])
   \<and> bollinger_trade (\<lambda>k. True) 160 95 80 150
        (\<lparr>position = 1, entry_price = Some 100, profit = 7\<rparr>, [])
      = Inr (\<lparr>position = 0, entry_price = None, profit = 57\<rparr>,
          [\<lparr>t_symbol = ''BTC'', t_side = ''sell'', t_amount = 0.01, t_price = 150, t_ok = True\<rparr>])
   \<and> bollinger_trade (\<lambda>k. True) 140 95 80 150
        (\<lparr>position = - 1, entry_price = Some 100, profit = 7\<rparr>, [])
      = Inr (\<lparr>position = 0, entry_price = None, profit = - 43\<rparr>,
          [\<lparr>t_symbol = ''BTC'', t_side = ''buy'', t_amount = 0.01, t_price = 150, t_ok = True\<rparr>])"
  using realized_profit_is_price_difference
    [where s = "\<lparr>position = 0, entry_price = None, profit = 0\<rparr>"
       and h = "\<lparr>position = 1, entry_price = Some 100, profit = 7\<rparr>"
       and k = "\<lparr>position = - 1, entry_price = Some 100, profit = 7\<rparr>"
       and ?P1.0 = 100 and ?P2.0 = 150 and ex = "\<lambda>k. True" and sent = "[]"
       and m_buy = 60 and m_down = "- 10" and m_sell = "- 60" and m_up = 10
       and upper = 95 and lower = 80 and ma = 90 and ma_long = 160
       and upper_s = 120 and lower_s = 110 and ma_short = 140]
  by simp

section \<open>The learned-policy script is long-only\<close>

lemma net_holding_snoc:
  "net_holding (sent @ [t]) =
     net_holding sent + (if t_ok t \<and> t_side t = ''buy'' then 1 else 0)
                      - (if t_ok t \<and> t_side t = ''sell'' then 1 else 0)"
  by (simp add: net_holding_def)

lemma net_trade_cases:
  "net_consistent (s, sent) \<Longrightarrow>
   (case net_trade ex decision current_close (s, sent) of
      Inl e \<Rightarrow> False
    | Inr st' \<Rightarrow> net_consistent st')"
  by (auto simp: net_trade_def net_consistent_def send_trade_order_eq net_holding_snoc)

lemma net_trade_consistent:
  assumes "net_consistent st"
  shows "\<exists>st'. net_trade ex decision current_close st = Inr st' \<and> net_consistent st'"
proof -
  obtain s sent where st: "st = (s, sent)" by (cases st)
  from net_trade_cases [of s sent ex decision current_close] assms
  show ?thesis unfolding st by (cases "net_trade ex decision current_close (s, sent)") auto
qed

lemma net_run_consistent:
  "net_consistent st \<Longrightarrow> \<exists>st'. net_run ex ticks st = Inr st' \<and> net_consistent st'"
proof (induction ticks arbitrary: st)
  case Nil
  then show ?case by simp
next
  case (Cons tick ticks)
  obtain decision current_close where tick: "tick = (decision, current_close)" by (cases tick)
  from net_trade_consistent [OF Cons.prems, of ex decision current_close]
  obtain st1 where s1: "net_trade ex decision current_close st = Inr st1" and c1: "net_consistent st1"
    by blast
  from Cons.IH [OF c1] obtain st' where "net_run ex ticks st1 = Inr st'" and "net_consistent st'"
    by blast
  then show ?case using s1 tick by simp
qed

text \<open>
  Claim C10. \<^verbatim>\<open>GNN_1\<close> started with no position, for every sequence of decisions and
  prices and whatever the execution endpoint answers: the loop never raises; an entry
  price is set exactly when a position is open; the orders filled add up to one unit
  when a position is open and to zero otherwise, so the holding is Flat or Long and
  never Short; and in the state reached, a Buy decision with a position open, and a
  Sell decision with none, submit no order and change nothing.
\<close>

theorem learned_policy_long_only:
  "\<exists>s sent. net_run ex ticks (\<lparr>in_position = False, net_entry_price = None\<rparr>, []) = Inr (s, sent)
      \<and> (in_position s = (net_entry_price s \<noteq> None))
      \<and> net_holding sent = (if in_position s then 1 else 0)
      \<and> (in_position s \<longrightarrow> net_trade ex 1 price (s, sent) = Inr (s, sent))
      \<and> (\<not> in_position s \<longrightarrow> net_trade ex 2 price (s, sent) = Inr (s, sent))"
proof -
  have "net_consistent (\<lparr>in_position = False, net_entry_price = None\<rparr>, [])"
    by (simp add: net_consistent_def net_holding_def)
  from net_run_consistent [OF this, of ex ticks]
  obtain st' where r: "net_run ex ticks (\<lparr>in_position = False, net_entry_price = None\<rparr>, []) = Inr st'"
    and c: "net_consistent st'" by blast
  obtain s sent where st': "st' = (s, sent)" by (cases st')
  have "(in_position s \<longrightarrow> net_trade ex 1 price (s, sent) = Inr (s, sent))
      \<and> (\<not> in_position s \<longrightarrow> net_trade ex 2 price (s, sent) = Inr (s, sent))"
    by (simp add: net_trade_def)
  then show ?thesis using r c unfolding st' net_consistent_def by auto
qed

theorem learned_policy_long_only_witness:
  "net_run (\<lambda>k. True) [(1, 100), (1, 110), (0, 115), (2, 120), (2, 130), (1, 140)]
       (\<lparr>in_position = False, net_entry_price = None\<rparr>, [])
     = Inr (\<lparr>in_position = True, net_entry_price = Some 140\<rparr>,
         [\<lparr>t_symbol = ''BTC'', t_side = ''buy'', t_amount = 0.01, t_price = 100, t_ok = True\<rparr>,
          \<lparr>t_symbol = ''BTC'', t_side = ''sell'', t_amount = 0.01, t_price = 120, t_ok = True\<rparr>,
          \<lparr>t_symbol = ''BTC'', t_side = ''buy'', t_amount = 0.01, t_price = 140, t_ok = True\<rparr>])
   \<and> net_holding
         [\<lparr>t_symbol = ''BTC'', t_side = ''buy'', t_amount = 0.01, t_price = 100, t_ok = True\<rparr>,
          \<lparr>t_symbol = ''BTC'', t_side = ''sell'', t_amount = 0.01, t_price = 120, t_ok = True\<rparr>,
          \<lparr>t_symbol = ''BTC'', t_side = ''buy'', t_amount = 0.01, t_price = 140, t_ok = True\<rparr>] = 1
   \<and> net_trade (\<lambda>k. True) 1 150
       (\<lparr>in_position = True, net_entry_price = Some 140\<rparr>,
         [\<lparr>t_symbol = ''BTC'', t_side = ''buy'', t_amount = 0.01, t_price = 100, t_ok = True\<rparr>,
          \<lparr>t_symbol = ''BTC'', t_side = ''sell'', t_amount = 0.01, t_price = 120, t_ok = True\<rparr>,
          \<lparr>t_symbol = ''BTC'', t_side = ''buy'', t_amount = 0.01, t_price = 140, t_ok = True\<rparr>])
     = Inr (\<lparr>in_position = True, net_entry_price = Some 140\<rparr>,
         [\<lparr>t_symbol = ''BTC'', t_side = ''buy'', t_amount = 0.01, t_price = 100, t_ok = True\<rparr>,
          \<lparr>t_symbol = ''BTC'', t_side = ''sell'', t_amount = 0.01, t_price = 120, t_ok = True\<rparr>,
          \<lparr>t_symbol = ''BTC'', t_side = ''buy'', t_amount = 0.01, t_price = 140, t_ok = True\<rparr>])"
proof -
  have run: "net_run (\<lambda>k. True) [(1, 100), (1, 110), (0, 115), (2, 120), (2, 130), (1, 140)]
       (\<lparr>in_position = False, net_entry_price = None\<rparr>, [])
     = Inr (\<lparr>in_position = True, net_entry_price = Some 140\<rparr>,
         [\<lparr>t_symbol = ''BTC'', t_side = ''buy'', t_amount = 0.01, t_price = 100, t_ok = True\<rparr>,
          \<lparr>t_symbol = ''BTC'', t_side = ''sell'', t_amount = 0.01, t_price = 120, t_ok = True\<rparr>,
          \<lparr>t_symbol = ''BTC'', t_side = ''buy'', t_amount = 0.01, t_price = 140, t_ok = True\<rparr>])"
    by (simp add: net_trade_def send_trade_order_eq)
  show ?thesis
    using learned_policy_long_only
      [of "\<lambda>k. True" "[(1, 100), (1, 110), (0, 115), (2, 120), (2, 130), (1, 140)]" 150]
    unfolding run by auto
qed

section \<open>RSI of a rising series\<close>

lemma diff_from_increasing:
  "sorted_wrt (<) (p # xs) \<Longrightarrow>
   \<exists>ds. diff_from p xs = map Fin ds \<and> length ds = length xs \<and> (\<forall>d \<in> set ds. 0 < d)"
proof (induction xs arbitrary: p)
  case Nil
  then show ?case by simp
next
  case (Cons x xs)
  from Cons.prems have "sorted_wrt (<) (x # xs)" and px: "p < x" by auto
  from Cons.IH [OF this(1)] obtain ds where
    ds: "diff_from x xs = map Fin ds" "length ds = length xs" "\<forall>d \<in> set ds. 0 < d" by blast
  have "diff_from p (x # xs) = map Fin ((x - p) # ds)" using ds(1) by simp
  moreover have "length ((x - p) # ds) = length (x # xs)" using ds(2) by simp
  moreover have "\<forall>d \<in> set ((x - p) # ds). 0 < d" using ds(3) px by simp
  ultimately show ?case by blast
qed

lemma foldl_fl_add_Fin: "foldl fl_add (Fin a) (map Fin es) = Fin (a + sum_list es)"
  by (induction es arbitrary: a) (simp_all add: add.assoc)

lemma window_mean_Fin:
  assumes "length es = period" and "1 \<le> period"
  shows "window_mean period (map Fin es) = Fin (sum_list es / real period)"
proof -
  have "filter (\<lambda>x. x \<noteq> NaN) (map Fin es) = map Fin es"
    by (induction es) simp_all
  then show ?thesis
    using assms by (simp add: window_mean_def foldl_fl_add_Fin)
qed

lemma last_rolling_window_mean:
  assumes "xs \<noteq> []"
  shows "last (rolling_window_mean period xs) = window_mean period (drop (length xs - period) xs)"
proof -
  obtain n where n: "length xs = Suc n" using assms by (cases xs) auto
  have "last (rolling_window_mean period xs)
          = window_mean period (drop (Suc n - period) (take (Suc n) xs))"
    unfolding rolling_window_mean_def n by (simp add: last_map)
  then show ?thesis using n by simp
qed

lemma length_rolling_window_mean: "length (rolling_window_mean period xs) = length xs"
  by (simp add: rolling_window_mean_def)

lemma last_map2:
  assumes "length xs = length ys" and "xs \<noteq> []"
  shows "last (map2 f xs ys) = f (last xs) (last ys)"
proof -
  from assms have ne: "ys \<noteq> []" by auto
  have "last (zip xs ys) = (last xs, last ys)"
    using assms ne by (simp add: last_conv_nth)
  moreover have "zip xs ys \<noteq> []" using assms ne by (cases xs; cases ys) auto
  ultimately show ?thesis by (simp add: last_map)
qed

lemma sum_list_pos_real:
  fixes es :: "real list"
  assumes "es \<noteq> []" and "\<forall>d \<in> set es. 0 < d"
  shows "0 < sum_list es"
  using assms by (induction es) (auto intro: add_pos_nonneg sum_list_nonneg less_imp_le)

lemma rsi_of_infinite_rs:
  "fl_sub (Fin 100) (fl_div (Fin 100) (fl_add (Fin 1) PInf)) = Fin 100"
  "fl_sub (Fin 100) (fl_div (Fin 100) (fl_add (Fin 1) NInf)) = Fin 100"
  by (simp_all add: fl_sub_def)

text \<open>
  Claim C7. For every period of at least 1 and every series of at least period + 1
  strictly increasing closes, the value \<^verbatim>\<open>evaluate_RSI\<close> reads, the last element of
  \<^verbatim>\<open>compute_RSI\<close>, is the number 100: every difference in the last window is a gain,
  the average loss is zero, the quotient of the two averages is an infinity (pandas
  raises nothing on the zero divisor), and 100 - 100 / (1 + infinity) is 100. The
  result is a finite value, not NaN. The sign a float zero carries would only change
  the sign of that infinity, and \<open>rsi_of_infinite_rs\<close> gives 100 for both.
\<close>

theorem rsi_of_rising_series_is_100:
  assumes "1 \<le> period"
      and "period + 1 \<le> length series"
      and "sorted_wrt (<) series"
  shows "last (compute_RSI series period) = Fin 100"
proof -
  obtain x rest where series: "series = x # rest" using assms(2) by (cases series) auto
  from diff_from_increasing [of x rest] assms(3) series obtain ds where
    ds: "diff_from x rest = map Fin ds" "length ds = length rest" "\<forall>d \<in> set ds. 0 < d"
    by blast
  have per: "period \<le> length ds" using assms(2) series ds(2) by simp
  define es where "es = drop (length ds - period) ds"
  have es_len: "length es = period" using per by (simp add: es_def)
  have es_pos: "\<forall>d \<in> set es. 0 < d" using ds(3) by (auto simp: es_def dest: in_set_dropD)
  have es_ne: "es \<noteq> []" using es_len assms(1) by auto
  let ?gain = "map clip_lower0 (diff series)"
  let ?loss = "map (\<lambda>d. fl_neg (clip_upper0 d)) (diff series)"
  have nonneg: "\<forall>d \<in> set ds. \<not> d < 0" using ds(3) by fastforce
  have gain: "?gain = NaN # map Fin ds"
    using nonneg by (simp add: series ds(1))
  have loss: "?loss = NaN # map Fin (map (\<lambda>d. 0) ds)"
    using ds(3) by (simp add: series ds(1))
  have idx: "Suc (length ds) - period = Suc (length ds - period)"
    using per by simp
  have wg: "drop (length ?gain - period) ?gain = map Fin es"
    unfolding gain by (simp add: idx es_def drop_map)
  have wl: "drop (length ?loss - period) ?loss = map Fin (map (\<lambda>d. 0) es)"
    unfolding loss by (simp add: idx es_def drop_map)
  have avg_gain: "last (rolling_window_mean period ?gain) = Fin (sum_list es / real period)"
    using last_rolling_window_mean [of ?gain period] wg window_mean_Fin [OF es_len assms(1)]
    by (simp add: gain)
  have "sum_list (map (\<lambda>d. 0::real) es) = 0" by simp
  then have avg_loss: "last (rolling_window_mean period ?loss) = Fin 0"
    using last_rolling_window_mean [of ?loss period] wl
      window_mean_Fin [of "map (\<lambda>d. 0) es" period] es_len assms(1)
    by (simp add: loss)
  have pos: "0 < sum_list es / real period"
    using sum_list_pos_real [OF es_ne es_pos] assms(1) by simp
  define G where "G = rolling_window_mean period ?gain"
  define L where "L = rolling_window_mean period ?loss"
  have len: "length G = length L" by (simp add: G_def L_def length_rolling_window_mean)
  have "length G = Suc (length ds)"
    unfolding G_def length_rolling_window_mean gain by simp
  then have G_ne: "G \<noteq> []" by auto
  have "last (map2 fl_div G L) = fl_div (last G) (last L)"
    using len G_ne by (rule last_map2)
  also have "\<dots> = fl_div (Fin (sum_list es / real period)) (Fin 0)"
    using avg_gain avg_loss by (simp only: G_def L_def)
  also have "\<dots> = PInf"
  proof -
    define q where "q = sum_list es / real period"
    have "0 < q" using pos by (simp add: q_def)
    then have "fl_div (Fin q) (Fin 0) = PInf" by simp
    then show ?thesis by (simp only: q_def)
  qed
  finally have rs: "last (map2 fl_div G L) = PInf" .
  have ne: "map2 fl_div G L \<noteq> []" using len G_ne by (cases G; cases L) auto
  define M where "M = map2 fl_div G L"
  have c: "compute_RSI series period
          = map (\<lambda>r. fl_sub (Fin 100) (fl_div (Fin 100) (fl_add (Fin 1) r))) M"
    by (simp only: compute_RSI_def Let_def G_def L_def M_def)
  have "M \<noteq> []" unfolding M_def by (rule ne)
  then have "last (map (\<lambda>r. fl_sub (Fin 100) (fl_div (Fin 100) (fl_add (Fin 1) r))) M)
          = fl_sub (Fin 100) (fl_div (Fin 100) (fl_add (Fin 1) (last M)))"
    by (rule last_map)
  also have "last M = PInf" unfolding M_def by (rule rs)
  finally show ?thesis using c by (simp add: fl_sub_def)
qed

theorem rsi_of_rising_series_is_100_witness:
  "(1::nat) \<le> 14
   \<and> 14 + 1 \<le> length [101, 102, 103, 104, 105, 106, 107, 108, 109, 110, 111, 112, 113, 114, 115 :: real]
   \<and> sorted_wrt (<) [101, 102, 103, 104, 105, 106, 107, 108, 109, 110, 111, 112, 113, 114, 115 :: real]
   \<and> last (compute_RSI [101, 102, 103, 104, 105, 106, 107, 108, 109, 110, 111, 112, 113, 114, 115] 14)
       = Fin 100"
  using rsi_of_rising_series_is_100
    [of 14 "[101, 102, 103, 104, 105, 106, 107, 108, 109, 110, 111, 112, 113, 114, 115]"]
  by simp

section \<open>Repeating the Q-update\<close>

text \<open>
  \<open>update_Q_self\<close>: when the next state is the state itself and the updated action
  holds the largest value \<open>q\<close> of its row, \<^verbatim>\<open>update_Q\<close> replaces \<open>q\<close> by
  \<open>q_rule alpha gamma q reward q\<close>, the step \<open>q_repeat\<close> iterates.
\<close>

lemma update_Q_self:
  assumes "Q state = Some row"
      and "map_of row action = Some q"
      and "py_max (map snd row) = Inr q"
  shows "update_Q alpha gamma state action reward state Q
           = Inr (Q(state \<mapsto> map (\<lambda>(a, v). if a = action
                                               then (a, q_rule alpha gamma q reward q)
                                               else (a, v)) row))"
  using assms by (simp add: update_Q_def initialize_state_if_needed_def)

lemma update_Q_first_visit:
  "update_Q (1/10) (99/100) (0, ''up'') 1 5 (0, ''up'') Map.empty
     = Inr [(0, ''up'') \<mapsto> [(0, 0), (1, 1/2), (2, 0)]]"
  by (simp add: update_Q_def initialize_state_if_needed_def q_rule_def)

lemma q_rule_error:
  assumes "gamma \<noteq> 1"
  shows "q_rule alpha gamma q reward q - reward / (1 - gamma)
           = (1 - alpha * (1 - gamma)) * (q - reward / (1 - gamma))"
proof -
  have key: "q + alpha * ((1 - gamma) * f + gamma * q - q) - f
               = (1 - alpha * (1 - gamma)) * (q - f)" for f
    by (simp add: algebra_simps)
  have "(1 - gamma) * (reward / (1 - gamma)) = reward" using assms by simp
  with key [of "reward / (1 - gamma)"] show ?thesis by (simp only: q_rule_def)
qed

lemma q_repeat_closed_form:
  assumes "gamma \<noteq> 1"
  shows "q_repeat alpha gamma reward n q
           = reward / (1 - gamma) + (1 - alpha * (1 - gamma)) ^ n * (q - reward / (1 - gamma))"
proof (induction n arbitrary: q)
  case 0
  then show ?case by simp
next
  case (Suc n)
  have "q_rule alpha gamma q reward q - reward / (1 - gamma)
           = (1 - alpha * (1 - gamma)) * (q - reward / (1 - gamma))"
    using assms by (rule q_rule_error)
  then show ?case by (simp add: Suc.IH)
qed

lemma q_rule_fixed_point:
  assumes "alpha \<noteq> 0" and "gamma \<noteq> 1"
  shows "q_rule alpha gamma q reward q = q \<longleftrightarrow> q = reward / (1 - gamma)"
proof -
  have "q_rule alpha gamma q reward q = q \<longleftrightarrow> alpha * (reward + gamma * q - q) = 0"
    by (simp add: q_rule_def)
  also have "\<dots> \<longleftrightarrow> reward + gamma * q - q = 0" using assms(1) by simp
  also have "\<dots> \<longleftrightarrow> q * (1 - gamma) = reward" by (auto simp: algebra_simps)
  also have "\<dots> \<longleftrightarrow> q = reward / (1 - gamma)" using assms(2) by (auto simp: field_simps)
  finally show ?thesis .
qed

lemma q_repeat_converges:
  assumes "0 < alpha" and "gamma < 1" and small: "alpha * (1 - gamma) < 2"
  shows "(\<lambda>n. q_repeat alpha gamma reward n q0) \<longlonglongrightarrow> reward / (1 - gamma)"
proof -
  define c where "c = 1 - alpha * (1 - gamma)"
  have "0 < alpha * (1 - gamma)" using assms(1,2) by simp
  then have "\<bar>c\<bar> < 1" using small by (simp add: c_def abs_less_iff)
  then have "(\<lambda>n. c ^ n) \<longlonglongrightarrow> 0" by (intro LIMSEQ_power_zero) simp
  then have "(\<lambda>n. c ^ n * (q0 - reward / (1 - gamma)))
               \<longlonglongrightarrow> 0 * (q0 - reward / (1 - gamma))"
    by (rule tendsto_mult_right)
  then have "(\<lambda>n. reward / (1 - gamma) + c ^ n * (q0 - reward / (1 - gamma)))
               \<longlonglongrightarrow> reward / (1 - gamma) + 0 * (q0 - reward / (1 - gamma))"
    by (rule tendsto_add [OF tendsto_const])
  moreover have "q_repeat alpha gamma reward n q0
                   = reward / (1 - gamma) + c ^ n * (q0 - reward / (1 - gamma))" for n
    unfolding c_def using assms(2) by (intro q_repeat_closed_form) simp
  ultimately show ?thesis by simp
qed

text \<open>
  Claim C9. For every learning rate alpha in (0, 1], every discount factor gamma with
  0 \<le> gamma < 1 and every constant reward R, the update
  \<open>q \<mapsto> q + alpha * (R + gamma * q - q)\<close> of \<^verbatim>\<open>update_Q\<close>, with the stored value itself
  as \<^verbatim>\<open>max_next\<close>, has R / (1 - gamma) as its one and only fixed point, and applied
  again and again it converges to R / (1 - gamma) from every starting value. The
  script's own constants are alpha = 0.1 and gamma = 0.99.
\<close>

theorem q_update_converges_to_fixed_point:
  assumes "0 < alpha" and "alpha \<le> 1" and "0 \<le> gamma" and "gamma < 1"
  shows "(q_rule alpha gamma q reward q = q \<longleftrightarrow> q = reward / (1 - gamma))
       \<and> (\<lambda>n. q_repeat alpha gamma reward n q0) \<longlonglongrightarrow> reward / (1 - gamma)"
proof -
  have fp: "q_rule alpha gamma q reward q = q \<longleftrightarrow> q = reward / (1 - gamma)"
    using assms(1,4) by (intro q_rule_fixed_point) simp_all
  have "1 - gamma \<le> 1" using assms(3) by simp
  then have "alpha * (1 - gamma) \<le> 1 * 1"
    using assms(1,2,4) by (intro mult_mono) simp_all
  then have "alpha * (1 - gamma) < 2" by simp
  with assms(1,4) have "(\<lambda>n. q_repeat alpha gamma reward n q0) \<longlonglongrightarrow> reward / (1 - gamma)"
    by (rule q_repeat_converges)
  with fp show ?thesis by simp
qed

theorem q_update_converges_to_fixed_point_witness:
  "(0::real) < 1 / 10 \<and> (1::real) / 10 \<le> 1 \<and> (0::real) \<le> 99 / 100 \<and> (99::real) / 100 < 1
   \<and> q_rule (1 / 10) (99 / 100) 100 1 100 = 100
   \<and> (\<lambda>n. q_repeat (1 / 10) (99 / 100) 1 n 0) \<longlonglongrightarrow> 100"
  using q_update_converges_to_fixed_point [of "1 / 10" "99 / 100" 100 1 0]
  by simp

end
